theory Spec2Isabelle
  imports Main "HOL-Library.AList" "HOL-Library.List_Lexorder" "HOL-Library.Char_ord"
begin

section \<open>Strings, dictionaries and exceptions of the host language\<close>

text \<open>
  Python strings are modelled as \<^typ>\<open>string\<close>, compared lexicographically by character
  code as Python compares \<open>str\<close>. A \<open>dict\<close> is an association list with distinct keys
  in insertion order: \<open>d[k] = v\<close> is \<^const>\<open>AList.update\<close> (an existing key keeps its
  place, a new key goes last), \<open>k in d\<close> is membership in the list of keys and
  \<open>d.values()\<close> is the list of second components.
\<close>

type_synonym ('k, 'v) dict = "('k \<times> 'v) list"

definition keys :: "('k, 'v) dict \<Rightarrow> 'k list" where
  "keys d = map fst d"

definition dict_values :: "('k, 'v) dict \<Rightarrow> 'v list" where
  "dict_values d = map snd d"

text \<open>\<open>sep.join(xs)\<close>.\<close>

fun join :: "string \<Rightarrow> string list \<Rightarrow> string" where
  "join sep [] = []"
| "join sep [x] = x"
| "join sep (x # y # ys) = x @ sep @ join sep (y # ys)"

text \<open>
  \<open>str.isspace\<close> on the code points below 256, and \<open>str.strip()\<close> with no argument,
  which removes the leading and the trailing whitespace.
\<close>

definition isspace :: "char \<Rightarrow> bool" where
  "isspace c = (of_char c \<in> {9, 10, 11, 12, 13, 28, 29, 30, 31, 32, 133, 160 :: nat})"

definition strip :: "string \<Rightarrow> string" where
  "strip s = rev (dropWhile isspace (rev (dropWhile isspace s)))"

text \<open>
  The exceptions of the program. \<open>Raised\<close> stands for whatever an external callable
  (a resolver, a decorated function) raises.
\<close>

datatype exception =
    GraphQLSchemaException string
  | GraphQLFactoryException string
  | AssertionError
  | KeyError string
  | NotImplementedError
  | Raised string

text \<open>The values that travel through resolvers and keyword arguments.\<close>

datatype pyval =
    PyNone
  | PyBool bool
  | PyInt int
  | PyStr string
  | PyList "pyval list"
  | PyDict "(string \<times> pyval) list"

section \<open>The type node model (schema.py)\<close>

text \<open>
  \<open>GraphQLScalar\<close> carries its name and the \<open>_default_scalar\<close> flag set by the built-in
  subclasses; the encoder and the decoder of the temporal scalars play no part in
  rendering or registration and are left out.
\<close>

datatype GraphQLScalar = GraphQLScalar (scalar_name: string) (default_scalar: bool)

text \<open>
  The subclasses of \<open>GraphQLDataType\<close>: \<open>GraphQLReference\<close>, \<open>GraphQLType\<close>,
  \<open>GraphQLArray\<close> and \<open>GraphQLScalar\<close>. A \<open>GraphQLType\<close> has a name, its attributes in
  the order they were appended, and the \<open>as_input\<close> flag.
\<close>

datatype GraphQLDataType =
    Reference (reference: string) (nullable: bool)
  | TypeOf GraphQLType
  | Array (item_type: GraphQLDataType)
  | Scalar GraphQLScalar
and GraphQLType =
    GraphQLType (type_name: string) (attrs: "GraphQLTypeAttribute list") (as_input: bool)
and GraphQLTypeAttribute =
    GraphQLTypeAttribute (attr_name: string) (attr_type: GraphQLDataType)

text \<open>
  The \<open>render\<close> methods. \<open>GraphQLType.render\<close> formats a template that starts with a
  newline and ends with a newline and eight spaces, and strips the result.
\<close>

primrec GraphQLDataType_render :: "GraphQLDataType \<Rightarrow> string"
  and GraphQLType_render :: "GraphQLType \<Rightarrow> string"
  and GraphQLTypeAttribute_render :: "GraphQLTypeAttribute \<Rightarrow> string"
where
  "GraphQLDataType_render (Reference r n) = r @ (if n then '''' else ''!'')"
| "GraphQLDataType_render (TypeOf t) = GraphQLType_render t"
| "GraphQLDataType_render (Array i) = ''['' @ GraphQLDataType_render i @ '']''"
| "GraphQLDataType_render (Scalar s) = ''scalar '' @ scalar_name s"
| "GraphQLType_render (GraphQLType n as inp) =
     strip (''\<newline>'' @ (if inp then ''input'' else ''type'') @ '' '' @ n @ '' {\<newline>    ''
            @ join ''\<newline>    '' (map GraphQLTypeAttribute_render as)
            @ ''\<newline>}\<newline>        '')"
| "GraphQLTypeAttribute_render (GraphQLTypeAttribute n t) =
     n @ '': '' @ GraphQLDataType_render t"

text \<open>\<open>GraphQLType.add_attribute\<close> appends to the attributes.\<close>

definition add_attribute :: "GraphQLType \<Rightarrow> GraphQLTypeAttribute \<Rightarrow> GraphQLType" where
  "add_attribute t field = GraphQLType (type_name t) (attrs t @ [field]) (as_input t)"

text \<open>
  The \<open>ref\<close> methods: a type and a scalar are referenced by name, an array by its
  rendered bracket form; \<open>GraphQLReference\<close> inherits the base method, which raises.
\<close>

fun ref :: "GraphQLDataType \<Rightarrow> bool \<Rightarrow> exception + GraphQLDataType" where
  "ref (Reference r n) nl = Inl NotImplementedError"
| "ref (TypeOf t) nl = Inr (Reference (type_name t) nl)"
| "ref (Array i) nl = Inr (Reference (GraphQLDataType_render (Array i)) nl)"
| "ref (Scalar s) nl = Inr (Reference (scalar_name s) nl)"

section \<open>Function nodes (schema.py)\<close>

text \<open>
  \<open>InjectedFunctionParameter\<close> has an optional name and an optional resolver;
  \<open>GraphQLFunctionField\<close> extends it with an optional type and the python name, which
  is the empty string until \<open>set_python_name\<close> is called.
\<close>

record InjectedFunctionParameter =
  name :: "string option"
  resolver :: "(pyval \<Rightarrow> exception + pyval) option"

record GraphQLFunctionField = InjectedFunctionParameter +
  graphql_type :: "GraphQLDataType option"
  python_name :: string

text \<open>\<open>InjectedFunctionParameter.resolve\<close>: the resolver when there is one, else the input.\<close>

definition resolve :: "'a InjectedFunctionParameter_scheme \<Rightarrow> pyval \<Rightarrow> exception + pyval" where
  "resolve p input = (case resolver p of Some r \<Rightarrow> r input | None \<Rightarrow> Inr input)"

text \<open>
  \<open>GraphQLFunction\<close>. Its \<open>resolver\<close> attribute, assigned after registration, is not
  read by any operation below and is left out.
\<close>

record GraphQLFunction =
  function_name :: string
  return_type :: GraphQLDataType
  parameters :: "GraphQLFunctionField list"
  injected_parameters :: "InjectedFunctionParameter list"

text \<open>An f-string prints \<open>None\<close> for an absent name.\<close>

definition format_name :: "string option \<Rightarrow> string" where
  "format_name n = (case n of None \<Rightarrow> ''None'' | Some s \<Rightarrow> s)"

text \<open>\<open>GraphQLFunctionField.render\<close> asserts that the field has a type.\<close>

definition GraphQLFunctionField_render :: "GraphQLFunctionField \<Rightarrow> exception + string" where
  "GraphQLFunctionField_render p =
     (case graphql_type p of
        None \<Rightarrow> Inl AssertionError
      | Some t \<Rightarrow> Inr (format_name (name p) @ '': '' @ GraphQLDataType_render t))"

text \<open>
  A list comprehension whose element expression may raise: the elements are computed in
  order and the first exception ends the comprehension.
\<close>

fun traverse :: "('a \<Rightarrow> exception + 'b) \<Rightarrow> 'a list \<Rightarrow> exception + 'b list" where
  "traverse g [] = Inr []"
| "traverse g (x # xs) =
     (case g x of
        Inl e \<Rightarrow> Inl e
      | Inr r \<Rightarrow> (case traverse g xs of Inl e \<Rightarrow> Inl e | Inr rs \<Rightarrow> Inr (r # rs)))"

definition GraphQLFunction_render :: "GraphQLFunction \<Rightarrow> exception + string" where
  "GraphQLFunction_render f =
     (case traverse GraphQLFunctionField_render (parameters f) of
        Inl e \<Rightarrow> Inl e
      | Inr rs \<Rightarrow>
          (let ps = join '', '' rs;
               ps' = (if ps \<noteq> [] then ''('' @ ps @ '')'' else ps)
           in Inr (function_name f @ ps' @ '': '' @ GraphQLDataType_render (return_type f))))"

section \<open>The schema registry (schema.py)\<close>

record GraphQLSchema =
  types :: "(string, GraphQLType) dict"
  scalars :: "(string, GraphQLScalar) dict"
  inputs :: "(string, GraphQLType) dict"
  queries :: "(string, GraphQLFunction) dict"
  mutations :: "(string, GraphQLFunction) dict"

text \<open>
  \<open>check_type_name_conflict\<close> takes a \<open>GraphQLType\<close> or a \<open>GraphQLScalar\<close>; the third
  test lets a scalar through when only the scalars hold its name.
\<close>

definition entity_name :: "GraphQLType + GraphQLScalar \<Rightarrow> string" where
  "entity_name g = (case g of Inl t \<Rightarrow> type_name t | Inr sc \<Rightarrow> scalar_name sc)"

text \<open>\<open>isinstance(graphql_type, GraphQLScalar)\<close>.\<close>

definition is_scalar :: "GraphQLType + GraphQLScalar \<Rightarrow> bool" where
  "is_scalar g = (case g of Inl t \<Rightarrow> False | Inr sc \<Rightarrow> True)"

definition check_type_name_conflict ::
  "GraphQLSchema \<Rightarrow> GraphQLType + GraphQLScalar \<Rightarrow> exception + unit" where
  "check_type_name_conflict s g =
     (if entity_name g \<in> set (keys (inputs s)) then
        Inl (GraphQLSchemaException
          (''Name '' @ entity_name g @ '' is already used as an input. Please specify another name!''))
      else if entity_name g \<in> set (keys (types s)) then
        Inl (GraphQLSchemaException
          (''Name '' @ entity_name g @ '' is already used as an type. Please specify another name!''))
      else if entity_name g \<in> set (keys (scalars s)) \<and> \<not> is_scalar g then
        Inl (GraphQLSchemaException
          (''Name '' @ entity_name g @ '' is already used as an scalar. Please specify another name!''))
      else Inr ())"

definition check_function_name_conflict ::
  "GraphQLSchema \<Rightarrow> GraphQLFunction \<Rightarrow> exception + unit" where
  "check_function_name_conflict s f =
     (if function_name f \<in> set (keys (queries s)) then
        Inl (GraphQLSchemaException
          (''Name '' @ function_name f @ '' is already used for a query. Please specify another name!''))
      else if function_name f \<in> set (keys (mutations s)) then
        Inl (GraphQLSchemaException
          (''Name '' @ function_name f @ '' is already used for a mutation. Please specify another name!''))
      else Inr ())"

text \<open>
  The registration methods return what they raise, if anything, and the registry as the
  call leaves it.
\<close>

definition add_type :: "GraphQLSchema \<Rightarrow> GraphQLType \<Rightarrow> (exception + unit) \<times> GraphQLSchema" where
  "add_type s t =
     (case check_type_name_conflict s (Inl t) of
        Inl e \<Rightarrow> (Inl e, s)
      | Inr _ \<Rightarrow> (Inr (), s\<lparr>types := AList.update (type_name t) t (types s)\<rparr>))"

definition add_scalar :: "GraphQLSchema \<Rightarrow> GraphQLScalar \<Rightarrow> (exception + unit) \<times> GraphQLSchema" where
  "add_scalar s sc =
     (case check_type_name_conflict s (Inr sc) of
        Inl e \<Rightarrow> (Inl e, s)
      | Inr _ \<Rightarrow> (Inr (), s\<lparr>scalars := AList.update (scalar_name sc) sc (scalars s)\<rparr>))"

definition add_input_type :: "GraphQLSchema \<Rightarrow> GraphQLType \<Rightarrow> (exception + unit) \<times> GraphQLSchema" where
  "add_input_type s t =
     (case check_type_name_conflict s (Inl t) of
        Inl e \<Rightarrow> (Inl e, s)
      | Inr _ \<Rightarrow> (Inr (), s\<lparr>inputs := AList.update (type_name t) t (inputs s)\<rparr>))"

definition add_query :: "GraphQLSchema \<Rightarrow> GraphQLFunction \<Rightarrow> (exception + unit) \<times> GraphQLSchema" where
  "add_query s f =
     (case check_function_name_conflict s f of
        Inl e \<Rightarrow> (Inl e, s)
      | Inr _ \<Rightarrow> (Inr (), s\<lparr>queries := AList.update (function_name f) f (queries s)\<rparr>))"

definition add_mutation :: "GraphQLSchema \<Rightarrow> GraphQLFunction \<Rightarrow> (exception + unit) \<times> GraphQLSchema" where
  "add_mutation s f =
     (case check_function_name_conflict s f of
        Inl e \<Rightarrow> (Inl e, s)
      | Inr _ \<Rightarrow> (Inr (), s\<lparr>mutations := AList.update (function_name f) f (mutations s)\<rparr>))"

text \<open>
  \<open>GraphQLSchema.render\<close>. \<open>sort_and_write\<close> takes types or scalars, sorts them by name
  (\<open>sorted\<close> is stable, as \<^const>\<open>sort_key\<close> is) and joins their renderings with a
  blank line.
\<close>

definition separator :: string where
  "separator = ''\<newline>\<newline>''"

definition entity_render :: "GraphQLType + GraphQLScalar \<Rightarrow> string" where
  "entity_render g =
     (case g of Inl t \<Rightarrow> GraphQLType_render t | Inr sc \<Rightarrow> GraphQLDataType_render (Scalar sc))"

definition sort_and_write :: "(GraphQLType + GraphQLScalar) list \<Rightarrow> string" where
  "sort_and_write ts = join separator (map entity_render (sort_key entity_name ts))"

text \<open>
  \<open>any(functions)\<close>: a \<open>GraphQLFunction\<close> object defines neither \<open>__bool__\<close> nor
  \<open>__len__\<close>, so each one is true.
\<close>

definition any_function :: "GraphQLFunction list \<Rightarrow> bool" where
  "any_function fs = list_ex (\<lambda>f. True) fs"

definition sort_and_write_functions :: "GraphQLFunction list \<Rightarrow> bool \<Rightarrow> exception + string" where
  "sort_and_write_functions fs as_mutation =
     (if \<not> any_function fs then Inr []
      else
        (let decl = (if as_mutation then ''Mutation'' else ''Query'') in
         case traverse GraphQLFunction_render (sort_key function_name fs) of
           Inl e \<Rightarrow> Inl e
         | Inr rs \<Rightarrow>
             Inr (strip (''\<newline>type '' @ decl @ '' {\<newline>    ''
                         @ join (''\<newline>'' @ [CHR 0x09]) rs @ ''\<newline>}''))))"

definition GraphQLSchema_render :: "GraphQLSchema \<Rightarrow> exception + string" where
  "GraphQLSchema_render s =
     (let sc = sort_and_write (map Inr (dict_values (scalars s)));
          ty = sort_and_write (map Inl (dict_values (types s)));
          inp = sort_and_write (map Inl (dict_values (inputs s)))
      in case sort_and_write_functions (dict_values (queries s)) False of
           Inl e \<Rightarrow> Inl e
         | Inr q \<Rightarrow>
             (case sort_and_write_functions (dict_values (mutations s)) True of
                Inl e \<Rightarrow> Inl e
              | Inr m \<Rightarrow> Inr (join separator (filter (\<lambda>x. length x \<noteq> 0) [sc, ty, inp, q, m]))))"

section \<open>The call-time wrapper (application.py)\<close>

text \<open>
  The loop of \<open>_decorator\<close> over the parameters of the registered function:
  \<open>kwargs\<close> are the incoming keyword arguments and \<open>resolved_kwargs\<close> the dictionary
  built so far. Both assertions test truth, so an empty string fails as \<open>None\<close> does.
\<close>

fun resolve_parameters ::
  "GraphQLFunctionField list \<Rightarrow> (string, pyval) dict \<Rightarrow> (string, pyval) dict
     \<Rightarrow> exception + (string, pyval) dict" where
  "resolve_parameters [] kwargs resolved_kwargs = Inr resolved_kwargs"
| "resolve_parameters (p # ps) kwargs resolved_kwargs =
     (if python_name p = [] then Inl AssertionError
      else case name p of
        None \<Rightarrow> Inl AssertionError
      | Some n \<Rightarrow>
          if n = [] then Inl AssertionError
          else case map_of kwargs n of
            None \<Rightarrow> Inl (KeyError n)
          | Some v \<Rightarrow>
              (case (if v \<noteq> PyNone then resolve p v else Inr PyNone) of
                 Inl e \<Rightarrow> Inl e
               | Inr w \<Rightarrow>
                   resolve_parameters ps kwargs (AList.update (python_name p) w resolved_kwargs)))"

text \<open>
  \<open>_decorator(*args, **kwargs)\<close> for the function node \<open>f\<close> and the decorated callable
  \<open>func\<close>: the positional arguments are not used, and \<open>func\<close> is called with the
  resolved keyword arguments once the loop is through.
\<close>

definition decorator ::
  "GraphQLFunction \<Rightarrow> ((string, pyval) dict \<Rightarrow> exception + 'r) \<Rightarrow> pyval list
     \<Rightarrow> (string, pyval) dict \<Rightarrow> exception + 'r" where
  "decorator f func args kwargs =
     (case resolve_parameters (parameters f) kwargs [] of
        Inl e \<Rightarrow> Inl e
      | Inr resolved_kwargs \<Rightarrow> func resolved_kwargs)"

section \<open>The type introspection engine\<close>

text \<open>
  The declarations the engine is given: one of the seven primitive kinds, an optional
  wrapper, a sequence, a structured model with its identifier and its fields in
  declaration order, or anything else, which no rule matches. A field that refers to a
  model by name, as a model that refers to itself does, is a model of that name: the
  engine finds the name registered and goes no further.
\<close>

datatype primitive = IntT | StrT | FloatT | BoolT | DateT | DateTimeT | TimeT

datatype python_type =
    Primitive primitive
  | OptionalOf python_type
  | ListOf python_type
  | Model string "(string \<times> python_type) list"
  | Unsupported string

text \<open>
  The scalar of a primitive kind: the built-in scalars carry the \<open>_default_scalar\<close>
  flag, the three temporal ones do not.
\<close>

fun scalar_of :: "primitive \<Rightarrow> GraphQLScalar" where
  "scalar_of IntT = GraphQLScalar ''Int'' True"
| "scalar_of StrT = GraphQLScalar ''String'' True"
| "scalar_of FloatT = GraphQLScalar ''Float'' True"
| "scalar_of BoolT = GraphQLScalar ''Boolean'' True"
| "scalar_of DateT = GraphQLScalar ''Date'' False"
| "scalar_of DateTimeT = GraphQLScalar ''DateTime'' False"
| "scalar_of TimeT = GraphQLScalar ''Time'' False"

text \<open>
  The registry map of the engine's mode and its registration method: the input types
  for an input engine, the object types otherwise.
\<close>

definition registered :: "bool \<Rightarrow> GraphQLSchema \<Rightarrow> (string, GraphQLType) dict" where
  "registered input_factory s = (if input_factory then inputs s else types s)"

definition register ::
  "bool \<Rightarrow> GraphQLSchema \<Rightarrow> GraphQLType \<Rightarrow> (exception + unit) \<times> GraphQLSchema" where
  "register input_factory s t = (if input_factory then add_input_type s t else add_type s t)"

text \<open>
  Appending an attribute to the type registered under a name: the registered object is
  the one the engine fills in, so the registry sees the attribute.
\<close>

definition append_attribute ::
  "bool \<Rightarrow> GraphQLSchema \<Rightarrow> string \<Rightarrow> GraphQLTypeAttribute \<Rightarrow> GraphQLSchema" where
  "append_attribute input_factory s target field =
     (if input_factory
      then s\<lparr>inputs := map (\<lambda>(k, t). if k = target then (k, add_attribute t field) else (k, t)) (inputs s)\<rparr>
      else s\<lparr>types := map (\<lambda>(k, t). if k = target then (k, add_attribute t field) else (k, t)) (types s)\<rparr>)"

text \<open>
  Modelled from the spec: \<open>GraphQLTypeFactory.create_graphql_type\<close> of factory.py, which
  is not among the sources; the tests call it and section 4.1 of the specification
  describes it as \<open>resolve(declaration, excludedAttrNames, explicitName)\<close>. The result is
  the resolved node, its nullability and the registry as the call leaves it.
  \<^enum> An optional wrapper of \<open>T\<close>: the result of \<open>T\<close>, with nullable true.
  \<^enum> A sequence of \<open>T\<close>: a list type whose inner reference, made by \<open>ref\<close>, carries the
    nullability of \<open>T\<close>; the list itself is not nullable.
  \<^enum> A primitive: its scalar, not nullable. A temporal scalar is created at the first
    encounter and registered in the scalars of the registry; later encounters find it.
  \<^enum> A model: its target name is the explicit name if one is given (the tests pass the
    empty string for none), else its identifier. A name registered in the map of the
    engine's mode gives the registered type. Otherwise an empty type is registered under
    the name, and every field that is not excluded is resolved and appended as an
    attribute that references its type.
  \<^enum> Anything else fails.
  The encoders and decoders of the scalars are not modelled, so the format strings do
  not appear.
\<close>

fun create_graphql_type ::
  "bool \<Rightarrow> GraphQLSchema \<Rightarrow> python_type \<Rightarrow> string list \<Rightarrow> string option
     \<Rightarrow> exception + ((GraphQLDataType \<times> bool) \<times> GraphQLSchema)"
and add_fields ::
  "bool \<Rightarrow> GraphQLSchema \<Rightarrow> string \<Rightarrow> string list \<Rightarrow> (string \<times> python_type) list
     \<Rightarrow> exception + GraphQLSchema"
where
  "create_graphql_type input_factory s (OptionalOf T) exclude_model_attrs explicit_name =
     (case create_graphql_type input_factory s T exclude_model_attrs explicit_name of
        Inl e \<Rightarrow> Inl e
      | Inr ((t, n), s') \<Rightarrow> Inr ((t, True), s'))"
| "create_graphql_type input_factory s (ListOf T) exclude_model_attrs explicit_name =
     (case create_graphql_type input_factory s T exclude_model_attrs explicit_name of
        Inl e \<Rightarrow> Inl e
      | Inr ((t, n), s') \<Rightarrow>
          (case ref t n of
             Inl e \<Rightarrow> Inl e
           | Inr item \<Rightarrow> Inr ((Array item, False), s')))"
| "create_graphql_type input_factory s (Primitive p) exclude_model_attrs explicit_name =
     (if default_scalar (scalar_of p) then Inr ((Scalar (scalar_of p), False), s)
      else case map_of (scalars s) (scalar_name (scalar_of p)) of
        Some sc \<Rightarrow> Inr ((Scalar sc, False), s)
      | None \<Rightarrow>
          (case add_scalar s (scalar_of p) of
             (Inl e, s') \<Rightarrow> Inl e
           | (Inr u, s') \<Rightarrow> Inr ((Scalar (scalar_of p), False), s')))"
| "create_graphql_type input_factory s (Model ident model_fields) exclude_model_attrs explicit_name =
     (let target = (case explicit_name of
                      None \<Rightarrow> ident
                    | Some n \<Rightarrow> if n = [] then ident else n)
      in case map_of (registered input_factory s) target of
        Some t \<Rightarrow> Inr ((TypeOf t, False), s)
      | None \<Rightarrow>
          (case register input_factory s (GraphQLType target [] input_factory) of
             (Inl e, s1) \<Rightarrow> Inl e
           | (Inr u, s1) \<Rightarrow>
               (case add_fields input_factory s1 target exclude_model_attrs model_fields of
                  Inl e \<Rightarrow> Inl e
                | Inr s2 \<Rightarrow>
                    (case map_of (registered input_factory s2) target of
                       None \<Rightarrow> Inl (KeyError target)
                     | Some t \<Rightarrow> Inr ((TypeOf t, False), s2)))))"
| "create_graphql_type input_factory s (Unsupported d) exclude_model_attrs explicit_name =
     Inl (GraphQLFactoryException d)"
| "add_fields input_factory s target exclude_model_attrs [] = Inr s"
| "add_fields input_factory s target exclude_model_attrs (field # rest) =
     (if fst field \<in> set exclude_model_attrs
      then add_fields input_factory s target exclude_model_attrs rest
      else case create_graphql_type input_factory s (snd field) [] None of
        Inl e \<Rightarrow> Inl e
      | Inr ((t, n), s') \<Rightarrow>
          (case ref t n of
             Inl e \<Rightarrow> Inl e
           | Inr r \<Rightarrow>
               add_fields input_factory
                 (append_attribute input_factory s' target (GraphQLTypeAttribute (fst field) r))
                 target exclude_model_attrs rest))"

section \<open>An example registry\<close>

text \<open>
  The model \<open>M\<close> with the fields \<open>t_int: int\<close> and \<open>t_opt_str: Optional[str]\<close>, registered
  as the object type \<open>M\<close> and as the input type \<open>MInput\<close>, the query \<open>get(m: M) -> M\<close>,
  a mutation with a nullable \<open>Date\<close> parameter whose resolver decodes it, and the
  \<open>Date\<close> scalar.
\<close>

definition example_M :: GraphQLType where
  "example_M = GraphQLType ''M''
     [GraphQLTypeAttribute ''t_int'' (Reference ''Int'' False),
      GraphQLTypeAttribute ''t_opt_str'' (Reference ''String'' True)] False"

definition example_MInput :: GraphQLType where
  "example_MInput = GraphQLType ''MInput''
     [GraphQLTypeAttribute ''t_int'' (Reference ''Int'' False),
      GraphQLTypeAttribute ''t_opt_str'' (Reference ''String'' True)] True"

definition example_Date :: GraphQLScalar where
  "example_Date = GraphQLScalar ''Date'' False"

definition example_get :: GraphQLFunction where
  "example_get =
     \<lparr>function_name = ''get'', return_type = Reference ''M'' False,
      parameters = [\<lparr>name = Some ''m'', resolver = None,
                      graphql_type = Some (Reference ''MInput'' False), python_name = ''m''\<rparr>],
      injected_parameters = []\<rparr>"

definition example_decoder :: "pyval \<Rightarrow> exception + pyval" where
  "example_decoder v =
     (case v of PyStr d \<Rightarrow> Inr (PyList [PyStr ''date'', PyStr d]) | _ \<Rightarrow> Inl (Raised ''TypeError''))"

definition example_put :: GraphQLFunction where
  "example_put =
     \<lparr>function_name = ''put'', return_type = Reference ''M'' True,
      parameters = [\<lparr>name = Some ''m'', resolver = None,
                      graphql_type = Some (Reference ''MInput'' False), python_name = ''model''\<rparr>,
                    \<lparr>name = Some ''day'', resolver = Some example_decoder,
                      graphql_type = Some (Reference ''Date'' True), python_name = ''on_day''\<rparr>],
      injected_parameters = []\<rparr>"

definition example_count :: GraphQLFunction where
  "example_count =
     \<lparr>function_name = ''count'', return_type = Reference ''Int'' False,
      parameters = [], injected_parameters = []\<rparr>"

definition example_schema :: GraphQLSchema where
  "example_schema =
     \<lparr>types = [(''M'', example_M)],
      scalars = [(''Date'', example_Date)],
      inputs = [(''MInput'', example_MInput)],
      queries = [(''get'', example_get), (''count'', example_count)],
      mutations = [(''put'', example_put)]\<rparr>"



section \<open>Auxiliary facts\<close>

lemma strip_template:
  assumes "\<not> isspace c" and "\<not> isspace d"
    and "\<forall>x \<in> set pre. isspace x" and "\<forall>x \<in> set post. isspace x"
  shows "strip (pre @ c # mid @ d # post) = c # mid @ [d]"
proof -
  have front: "dropWhile isspace (pre @ c # mid @ d # post) = c # mid @ d # post"
    using assms(1,3) by (simp add: dropWhile_append3)
  have rear: "dropWhile isspace (rev post @ d # rev mid @ [c]) = d # rev mid @ [c]"
    using assms(2,4) by (simp add: dropWhile_append3)
  show ?thesis
    unfolding strip_def front using rear by simp
qed

lemma isspace_newline [simp]: "isspace CHR ''\<newline>''"
  by (simp add: isspace_def)

lemma isspace_blank [simp]: "isspace CHR '' ''"
  by (simp add: isspace_def)

lemma not_isspace_letters [simp]:
  "\<not> isspace CHR ''t''" "\<not> isspace CHR ''i''" "\<not> isspace CHR ''}''"
  by (simp_all add: isspace_def)

lemma join_Cons: "join sep (x # xs) = x @ concat (map (\<lambda>y. sep @ y) xs)"
  by (induction xs arbitrary: x) simp_all

lemma GraphQLType_render_eq:
  "GraphQLType_render (GraphQLType n as inp) =
     (if inp then ''input'' else ''type'') @ '' '' @ n @ '' {\<newline>    ''
       @ join ''\<newline>    '' (map GraphQLTypeAttribute_render as) @ ''\<newline>}''"
proof (cases inp)
  case True
  show ?thesis
    using strip_template [of "CHR ''i''" "CHR ''}''" "''\<newline>''" "''\<newline>        ''"
        "''nput '' @ n @ '' {\<newline>    '' @ join ''\<newline>    '' (map GraphQLTypeAttribute_render as) @ ''\<newline>''"]
    by (simp add: True)
next
  case False
  show ?thesis
    using strip_template [of "CHR ''t''" "CHR ''}''" "''\<newline>''" "''\<newline>        ''"
        "''ype '' @ n @ '' {\<newline>    '' @ join ''\<newline>    '' (map GraphQLTypeAttribute_render as) @ ''\<newline>''"]
    by (simp add: False)
qed

lemma join_nonempty: "xs \<noteq> [] \<Longrightarrow> \<forall>x \<in> set xs. x \<noteq> [] \<Longrightarrow> join sep xs \<noteq> []"
  by (cases xs) (auto simp: join_Cons)

lemma traverse_field_render:
  "map graphql_type ps = map Some ts \<Longrightarrow>
   traverse GraphQLFunctionField_render ps =
     Inr (map2 (\<lambda>p t. format_name (name p) @ '': '' @ GraphQLDataType_render t) ps ts)"
proof (induction ps arbitrary: ts)
  case Nil
  then show ?case by simp
next
  case (Cons p ps)
  then obtain t ts' where ts: "ts = t # ts'" by (cases ts) auto
  with Cons.prems have "graphql_type p = Some t" "map graphql_type ps = map Some ts'" by auto
  with Cons.IH [of ts'] show ?case
    by (simp add: ts GraphQLFunctionField_render_def)
qed

lemma traverse_length: "traverse g xs = Inr rs \<Longrightarrow> length rs = length xs"
  by (induction xs arbitrary: rs) (auto split: sum.splits)

lemma any_function_iff [simp]: "any_function fs \<longleftrightarrow> fs \<noteq> []"
  by (cases fs) (simp_all add: any_function_def)

lemma sort_and_write_functions_eq:
  assumes "fs \<noteq> []" and "traverse GraphQLFunction_render (sort_key function_name fs) = Inr rs"
  shows "sort_and_write_functions fs as_mutation =
     Inr (''type '' @ (if as_mutation then ''Mutation'' else ''Query'') @ '' {\<newline>    ''
          @ join (''\<newline>'' @ [CHR 0x09]) rs @ ''\<newline>}'')"
  using assms
    strip_template [of "CHR ''t''" "CHR ''}''" "''\<newline>''" "[]"
      "''ype '' @ (if as_mutation then ''Mutation'' else ''Query'') @ '' {\<newline>    ''
          @ join (''\<newline>'' @ [CHR 0x09]) rs @ ''\<newline>''"]
  by (simp add: sort_and_write_functions_def)

lemma insort_key_map: "insort_key f (g x) (map g ys) = map g (insort_key (\<lambda>a. f (g a)) x ys)"
  by (induction ys) simp_all

lemma sort_key_map: "sort_key f (map g xs) = map g (sort_key (\<lambda>a. f (g a)) xs)"
  by (induction xs) (simp_all add: insort_key_map)

lemma sort_key_eq_Nil [simp]: "sort_key f xs = [] \<longleftrightarrow> xs = []"
  by (metis length_sort list.size(3) length_0_conv)

lemma entity_render_nonempty: "entity_render g \<noteq> []"
proof (cases g)
  case (Inl t)
  then show ?thesis by (cases t) (simp add: entity_render_def GraphQLType_render_eq del: GraphQLType_render.simps)
next
  case (Inr sc)
  then show ?thesis by (simp add: entity_render_def)
qed

lemma sort_and_write_eq_Nil: "sort_and_write ts = [] \<longleftrightarrow> ts = []"
proof (cases "ts = []")
  case True
  then show ?thesis by (simp add: sort_and_write_def)
next
  case False
  then have "map entity_render (sort_key entity_name ts) \<noteq> []" by simp
  moreover have "\<forall>x \<in> set (map entity_render (sort_key entity_name ts)). x \<noteq> []"
    by (auto simp: entity_render_nonempty)
  ultimately have "sort_and_write ts \<noteq> []"
    unfolding sort_and_write_def by (rule join_nonempty)
  with False show ?thesis by simp
qed

lemma sort_and_write_scalars:
  "sort_and_write (map Inr xs) =
     join separator (map (\<lambda>sc. ''scalar '' @ scalar_name sc) (sort_key scalar_name xs))"
proof -
  show ?thesis
    by (simp add: sort_and_write_def sort_key_map entity_name_def entity_render_def comp_def)
qed

lemma sort_and_write_types:
  "sort_and_write (map Inl xs) = join separator (map GraphQLType_render (sort_key type_name xs))"
proof -
  show ?thesis
    by (simp add: sort_and_write_def sort_key_map entity_name_def entity_render_def comp_def)
qed

lemma sort_and_write_functions_Nil: "sort_and_write_functions [] as_mutation = Inr []"
  by (simp add: sort_and_write_functions_def)

lemma filter_sections:
  "filter (\<lambda>x. length x \<noteq> 0) [a, b, c, d, e] =
     (if a = [] then [] else [a]) @ (if b = [] then [] else [b]) @ (if c = [] then [] else [c])
     @ (if d = [] then [] else [d]) @ (if e = [] then [] else [e])"
  by simp

lemma update_fresh: "k \<notin> fst ` set d \<Longrightarrow> AList.update k w d = d @ [(k, w)]"
  by (induction d) auto

lemma resolve_parameters_success:
  assumes "list_all2 (\<lambda>p kw. fst kw = python_name p \<and> fst kw \<noteq> [] \<and>
              (\<exists>n v. name p = Some n \<and> n \<noteq> [] \<and> map_of kwargs n = Some v \<and>
                 (if v = PyNone then snd kw = PyNone
                  else case resolver p of None \<Rightarrow> snd kw = v | Some r \<Rightarrow> r v = Inr (snd kw)))) ps kws"
    and "distinct (map python_name ps)"
    and "python_name ` set ps \<inter> fst ` set acc = {}"
  shows "resolve_parameters ps kwargs acc = Inr (acc @ kws)"
  using assms
proof (induction ps arbitrary: kws acc)
  case Nil
  then show ?case by simp
next
  case (Cons p ps)
  from Cons.prems(1) obtain kw kws' where kws: "kws = kw # kws'"
    and head: "fst kw = python_name p" "python_name p \<noteq> []"
      "\<exists>n v. name p = Some n \<and> n \<noteq> [] \<and> map_of kwargs n = Some v \<and>
                 (if v = PyNone then snd kw = PyNone
                  else case resolver p of None \<Rightarrow> snd kw = v | Some r \<Rightarrow> r v = Inr (snd kw))"
    and rest: "list_all2 (\<lambda>p kw. fst kw = python_name p \<and> fst kw \<noteq> [] \<and>
              (\<exists>n v. name p = Some n \<and> n \<noteq> [] \<and> map_of kwargs n = Some v \<and>
                 (if v = PyNone then snd kw = PyNone
                  else case resolver p of None \<Rightarrow> snd kw = v | Some r \<Rightarrow> r v = Inr (snd kw)))) ps kws'"
    by (auto simp: list_all2_Cons1)
  from head(3) obtain n v where nv: "name p = Some n" "n \<noteq> []" "map_of kwargs n = Some v"
    and val: "if v = PyNone then snd kw = PyNone
                  else case resolver p of None \<Rightarrow> snd kw = v | Some r \<Rightarrow> r v = Inr (snd kw)"
    by blast
  from val have res: "(if v \<noteq> PyNone then resolve p v else Inr PyNone) = Inr (snd kw)"
    by (auto simp: resolve_def split: option.splits if_splits)
  from Cons.prems(3) have fresh: "python_name p \<notin> fst ` set acc" by auto
  have step: "resolve_parameters (p # ps) kwargs acc =
      resolve_parameters ps kwargs (acc @ [(python_name p, snd kw)])"
    using head(2) nv res update_fresh [OF fresh] by simp
  have disj: "python_name ` set ps \<inter> fst ` set (acc @ [(python_name p, snd kw)]) = {}"
    using Cons.prems(2,3) by auto
  from Cons.prems(2) have "distinct (map python_name ps)" by simp
  from Cons.IH [OF rest this disj] step head(1) show ?case
    by (simp add: kws) (metis prod.collapse)
qed



lemma example_queries_rendered:
  "traverse GraphQLFunction_render (sort_key function_name (dict_values (queries example_schema)))
     = Inr [''count: Int!'', ''get(m: MInput!): M!'']"
proof -
  have "sort_key function_name [example_get, example_count] = [example_count, example_get]"
    by (simp add: example_get_def example_count_def less_eq_char_def)
  then show ?thesis
    by (simp add: example_schema_def dict_values_def GraphQLFunction_render_def
        GraphQLFunctionField_render_def format_name_def example_get_def example_count_def)
qed

lemma example_mutations_rendered:
  "traverse GraphQLFunction_render (sort_key function_name (dict_values (mutations example_schema)))
     = Inr [''put(m: MInput!, day: Date): M'']"
  by (simp add: example_schema_def dict_values_def GraphQLFunction_render_def
      GraphQLFunctionField_render_def format_name_def example_put_def)

lemma ref_name:
  "(\<forall>r m. t \<noteq> Reference r m) \<Longrightarrow> \<exists>r. \<forall>nl. ref t nl = Inr (Reference r nl)"
  by (cases t) auto

lemma create_graphql_type_not_reference:
  "create_graphql_type input_factory s T ex nm = Inr ((t, n), s') \<Longrightarrow> t \<noteq> Reference r m"
proof (induction T arbitrary: t n s')
  case (Primitive p)
  then show ?case by (auto split: if_splits option.splits sum.splits prod.splits)
next
  case (OptionalOf T)
  then show ?case by (auto split: sum.splits prod.splits)
next
  case (ListOf T)
  then show ?case by (auto split: sum.splits prod.splits)
next
  case (Model ident model_fields)
  then show ?case
    by (auto simp: Let_def split: option.splits sum.splits prod.splits)
next
  case (Unsupported d)
  then show ?case by simp
qed

lemma create_graphql_type_plain:
  "create_graphql_type input_factory s T ex nm = Inr ((t, n), s') \<Longrightarrow> \<forall>U. T \<noteq> OptionalOf U \<Longrightarrow> \<not> n"
  by (cases T) (auto simp: Let_def split: if_splits option.splits sum.splits prod.splits)

section \<open>Registration\<close>

text \<open>
  Claim C2, as amended. The claim says that every registration under a name already held
  by a scalar, an object type or an input type fails, a scalar under a scalar's name
  included. The third test of \<open>check_type_name_conflict\<close> lets a scalar pass when only
  the scalars hold its name. What holds: \<open>add_type\<close> and \<open>add_input_type\<close> fail with a
  name-conflict error when the name is held by a scalar, an object type or an input type;
  \<open>add_scalar\<close> fails when the name is held by an object type or an input type; and when
  it is held by neither, \<open>add_scalar\<close> succeeds and stores the scalar under its name,
  in the place of a scalar of that name if there is one.
\<close>

theorem type_name_conflict:
  "(type_name t \<in> set (keys (scalars s)) \<union> set (keys (types s)) \<union> set (keys (inputs s)) \<longrightarrow>
      (\<exists>m. add_type s t = (Inl (GraphQLSchemaException m), s))
    \<and> (\<exists>m. add_input_type s t = (Inl (GraphQLSchemaException m), s)))
 \<and> (scalar_name sc \<in> set (keys (types s)) \<union> set (keys (inputs s)) \<longrightarrow>
      (\<exists>m. add_scalar s sc = (Inl (GraphQLSchemaException m), s)))
 \<and> (scalar_name sc \<notin> set (keys (types s)) \<union> set (keys (inputs s)) \<longrightarrow>
      add_scalar s sc = (Inr (), s\<lparr>scalars := AList.update (scalar_name sc) sc (scalars s)\<rparr>))"
  by (auto simp: add_type_def add_input_type_def add_scalar_def check_type_name_conflict_def
      entity_name_def is_scalar_def)

theorem type_name_conflict_witness:
  "type_name (GraphQLType ''Date'' [] False)
      \<in> set (keys (scalars example_schema)) \<union> set (keys (types example_schema))
        \<union> set (keys (inputs example_schema))
 \<and> add_type example_schema (GraphQLType ''Date'' [] False) =
      (Inl (GraphQLSchemaException
         ''Name Date is already used as an scalar. Please specify another name!''), example_schema)
 \<and> (\<exists>m. add_input_type example_schema (GraphQLType ''Date'' [] False) =
      (Inl (GraphQLSchemaException m), example_schema))
 \<and> scalar_name (GraphQLScalar ''M'' False)
      \<in> set (keys (types example_schema)) \<union> set (keys (inputs example_schema))
 \<and> (\<exists>m. add_scalar example_schema (GraphQLScalar ''M'' False) =
      (Inl (GraphQLSchemaException m), example_schema))
 \<and> add_scalar example_schema (GraphQLScalar ''Time'' False) =
      (Inr (), example_schema\<lparr>scalars := [(''Date'', example_Date), (''Time'', GraphQLScalar ''Time'' False)]\<rparr>)"
  using type_name_conflict [of "GraphQLType ''Date'' [] False" example_schema "GraphQLScalar ''M'' False"]
    type_name_conflict [of "GraphQLType ''Date'' [] False" example_schema "GraphQLScalar ''Time'' False"]
  by (simp add: example_schema_def keys_def add_type_def check_type_name_conflict_def
      entity_name_def is_scalar_def)

text \<open>
  The claim C2 as it is written fails: in the example registry the name \<open>Date\<close> is held
  by a scalar, and registering a scalar of that name succeeds and replaces the entry.
\<close>

theorem scalar_over_scalar_counterexample:
  "scalar_name (GraphQLScalar ''Date'' True) \<in> set (keys (scalars example_schema))
 \<and> add_scalar example_schema (GraphQLScalar ''Date'' True) =
      (Inr (), example_schema\<lparr>scalars := [(''Date'', GraphQLScalar ''Date'' True)]\<rparr>)"
  by (simp add: example_schema_def keys_def add_scalar_def check_type_name_conflict_def
      entity_name_def is_scalar_def)

text \<open>
  Claim C4. Registering a function as a query fails with a name-conflict error when its
  name is held by a query or by a mutation, and so does registering it as a mutation;
  the registry is returned as it was.
\<close>

theorem function_name_conflict:
  assumes "function_name f \<in> set (keys (queries s)) \<union> set (keys (mutations s))"
  shows "(\<exists>m. add_query s f = (Inl (GraphQLSchemaException m), s))
       \<and> (\<exists>m. add_mutation s f = (Inl (GraphQLSchemaException m), s))"
  using assms by (auto simp: add_query_def add_mutation_def check_function_name_conflict_def)

theorem function_name_conflict_witness:
  "function_name example_put \<in> set (keys (queries example_schema)) \<union> set (keys (mutations example_schema))
 \<and> function_name example_get \<in> set (keys (queries example_schema)) \<union> set (keys (mutations example_schema))
 \<and> add_query example_schema example_put =
      (Inl (GraphQLSchemaException
         ''Name put is already used for a mutation. Please specify another name!''), example_schema)
 \<and> add_query example_schema example_get =
      (Inl (GraphQLSchemaException
         ''Name get is already used for a query. Please specify another name!''), example_schema)
 \<and> (\<exists>m. add_mutation example_schema example_put = (Inl (GraphQLSchemaException m), example_schema))
 \<and> (\<exists>m. add_mutation example_schema example_get = (Inl (GraphQLSchemaException m), example_schema))"
proof -
  have put: "function_name example_put \<in> set (keys (queries example_schema)) \<union> set (keys (mutations example_schema))"
    by (simp add: example_schema_def example_put_def keys_def)
  have get: "function_name example_get \<in> set (keys (queries example_schema)) \<union> set (keys (mutations example_schema))"
    by (simp add: example_schema_def example_get_def keys_def)
  have "add_query example_schema example_put =
      (Inl (GraphQLSchemaException
         ''Name put is already used for a mutation. Please specify another name!''), example_schema)"
    by (simp add: add_query_def check_function_name_conflict_def example_schema_def example_put_def
        keys_def)
  moreover have "add_query example_schema example_get =
      (Inl (GraphQLSchemaException
         ''Name get is already used for a query. Please specify another name!''), example_schema)"
    by (simp add: add_query_def check_function_name_conflict_def example_schema_def example_get_def
        keys_def)
  ultimately show ?thesis
    using put get function_name_conflict [OF put] function_name_conflict [OF get] by simp
qed

text \<open>
  Claim C6. A registration method that raises leaves the registry, that is all five
  maps, as it found it.
\<close>

theorem registration_atomic:
  "(fst (add_type s t) = Inl e \<longrightarrow> snd (add_type s t) = s)
 \<and> (fst (add_input_type s t) = Inl e \<longrightarrow> snd (add_input_type s t) = s)
 \<and> (fst (add_scalar s sc) = Inl e \<longrightarrow> snd (add_scalar s sc) = s)
 \<and> (fst (add_query s f) = Inl e \<longrightarrow> snd (add_query s f) = s)
 \<and> (fst (add_mutation s f) = Inl e \<longrightarrow> snd (add_mutation s f) = s)"
  by (simp add: add_type_def add_input_type_def add_scalar_def add_query_def add_mutation_def
      split: sum.splits)

theorem registration_atomic_witness:
  "fst (add_type example_schema example_M) =
      Inl (GraphQLSchemaException ''Name M is already used as an type. Please specify another name!'')
 \<and> snd (add_type example_schema example_M) = example_schema
 \<and> fst (add_mutation example_schema example_put) =
      Inl (GraphQLSchemaException ''Name put is already used for a mutation. Please specify another name!'')
 \<and> snd (add_mutation example_schema example_put) = example_schema"
proof -
  have t: "fst (add_type example_schema example_M) =
      Inl (GraphQLSchemaException ''Name M is already used as an type. Please specify another name!'')"
    by (simp add: add_type_def check_type_name_conflict_def entity_name_def example_schema_def
        example_M_def keys_def)
  have m: "fst (add_mutation example_schema example_put) =
      Inl (GraphQLSchemaException ''Name put is already used for a mutation. Please specify another name!'')"
    by (simp add: add_mutation_def check_function_name_conflict_def example_schema_def
        example_put_def keys_def)
  from t m registration_atomic [of example_schema example_M
      "GraphQLSchemaException ''Name M is already used as an type. Please specify another name!''"
      example_Date example_put]
    registration_atomic [of example_schema example_M
      "GraphQLSchemaException ''Name put is already used for a mutation. Please specify another name!''"
      example_Date example_put]
  show ?thesis by simp
qed

section \<open>Rendering\<close>

text \<open>
  Claim C7. The object type \<open>M\<close> with the attributes \<open>t_int\<close>, a non-nullable reference
  to \<open>Int\<close>, and \<open>t_opt_str\<close>, a nullable reference to \<open>String\<close>, renders as the text
  of the specification. In general a type with at least one attribute renders as its
  header, one line for each attribute that starts with four spaces, and the closing
  brace; a non-nullable reference renders with a trailing \<open>!\<close> and a nullable one as
  the bare name.
\<close>

theorem type_block_rendering:
  "GraphQLType_render (GraphQLType ''M''
       [GraphQLTypeAttribute ''t_int'' (Reference ''Int'' False),
        GraphQLTypeAttribute ''t_opt_str'' (Reference ''String'' True)] False)
     = ''type M {\<newline>    t_int: Int!\<newline>    t_opt_str: String\<newline>}''
   \<and> (as \<noteq> [] \<longrightarrow>
        GraphQLType_render (GraphQLType n as inp) =
          (if inp then ''input'' else ''type'') @ '' '' @ n @ '' {''
            @ concat (map (\<lambda>a. ''\<newline>    '' @ attr_name a @ '': '' @ GraphQLDataType_render (attr_type a)) as)
            @ ''\<newline>}'')
   \<and> GraphQLDataType_render (Reference r False) = r @ ''!''
   \<and> GraphQLDataType_render (Reference r True) = r"
proof -
  have attr: "GraphQLTypeAttribute_render a = attr_name a @ '': '' @ GraphQLDataType_render (attr_type a)" for a
    by (cases a) simp
  have "GraphQLType_render (GraphQLType n as inp) =
          (if inp then ''input'' else ''type'') @ '' '' @ n @ '' {''
            @ concat (map (\<lambda>a. ''\<newline>    '' @ attr_name a @ '': '' @ GraphQLDataType_render (attr_type a)) as)
            @ ''\<newline>}''" if "as \<noteq> []"
  proof -
    from that obtain a rest where as: "as = a # rest" by (cases as) auto
    show ?thesis
      unfolding GraphQLType_render_eq as
      by (simp add: join_Cons attr comp_def)
  qed
  moreover have "GraphQLType_render (GraphQLType ''M''
       [GraphQLTypeAttribute ''t_int'' (Reference ''Int'' False),
        GraphQLTypeAttribute ''t_opt_str'' (Reference ''String'' True)] False)
     = ''type M {\<newline>    t_int: Int!\<newline>    t_opt_str: String\<newline>}''"
    unfolding GraphQLType_render_eq by simp
  ultimately show ?thesis by simp
qed

theorem type_block_rendering_witness:
  "attrs example_MInput \<noteq> []
 \<and> GraphQLType_render example_MInput =
      ''input MInput {\<newline>    t_int: Int!\<newline>    t_opt_str: String\<newline>}''"
  using type_block_rendering [of "attrs example_MInput" "''MInput''" True]
  by (simp add: example_MInput_def del: GraphQLType_render.simps)

text \<open>
  Claim C8. A function whose parameters all have a type renders as its name, then, only
  when it has a parameter, the parameters in declaration order as \<open>name: Type\<close>, joined
  by a comma and a space and put in parentheses, then a colon, a space and the return
  type. Types are rendered as in C7, a non-nullable reference with its \<open>!\<close>.
\<close>

theorem function_signature_rendering:
  assumes "map graphql_type (parameters f) = map Some ts"
  shows "GraphQLFunction_render f =
     Inr (function_name f
          @ (if parameters f = [] then []
             else ''('' @ join '', '' (map2 (\<lambda>p t. format_name (name p) @ '': '' @ GraphQLDataType_render t)
                                         (parameters f) ts) @ '')'')
          @ '': '' @ GraphQLDataType_render (return_type f))"
proof (cases "parameters f")
  case Nil
  with assms show ?thesis by (simp add: GraphQLFunction_render_def)
next
  case (Cons p ps)
  with assms obtain t ts' where ts: "ts = t # ts'" by (cases ts) auto
  have "join '', '' (map2 (\<lambda>p t. format_name (name p) @ '': '' @ GraphQLDataType_render t) (p # ps) (t # ts')) \<noteq> []"
    by (simp add: join_Cons)
  with traverse_field_render [OF assms] show ?thesis
    by (simp add: GraphQLFunction_render_def Cons ts Let_def)
qed

theorem function_signature_rendering_witness:
  "map graphql_type (parameters example_put) =
      map Some [Reference ''MInput'' False, Reference ''Date'' True]
 \<and> GraphQLFunction_render example_put = Inr ''put(m: MInput!, day: Date): M''
 \<and> map graphql_type (parameters example_count) = map Some []
 \<and> GraphQLFunction_render example_count = Inr ''count: Int!''"
  using function_signature_rendering [of example_put "[Reference ''MInput'' False, Reference ''Date'' True]"]
    function_signature_rendering [of example_count "[]"]
  by (simp add: example_put_def example_count_def format_name_def)

text \<open>
  Claim C9. When the functions of a block, sorted by name, render as \<open>r1\<close>, \<open>r2\<close> and
  the list \<open>rs\<close>, so that the block has two functions or more, the line of \<open>r1\<close> starts
  with four spaces and the line of every later signature with one tab character.
\<close>

theorem function_block_indentation:
  assumes "traverse GraphQLFunction_render (sort_key function_name fs) = Inr (r1 # r2 # rs)"
  shows "length fs = Suc (Suc (length rs)) \<and>
     sort_and_write_functions fs as_mutation =
       Inr (''type '' @ (if as_mutation then ''Mutation'' else ''Query'') @ '' {\<newline>''
            @ ''    '' @ r1
            @ concat (map (\<lambda>r. ''\<newline>'' @ [CHR 0x09] @ r) (r2 # rs))
            @ ''\<newline>}'')"
proof -
  from traverse_length [OF assms] have len: "length fs = Suc (Suc (length rs))" by simp
  then have "fs \<noteq> []" by auto
  from sort_and_write_functions_eq [OF this assms, of as_mutation] len
  show ?thesis by (simp add: join_Cons)
qed

theorem function_block_indentation_witness:
  "traverse GraphQLFunction_render (sort_key function_name (dict_values (queries example_schema)))
     = Inr [''count: Int!'', ''get(m: MInput!): M!'']
 \<and> sort_and_write_functions (dict_values (queries example_schema)) False =
      Inr (''type Query {\<newline>    count: Int!\<newline>'' @ [CHR 0x09] @ ''get(m: MInput!): M!\<newline>}'')"
proof -
  have h: "traverse GraphQLFunction_render (sort_key function_name (dict_values (queries example_schema)))
     = Inr [''count: Int!'', ''get(m: MInput!): M!'']"
    by (simp add: example_queries_rendered)
  from h function_block_indentation [OF h, of False] show ?thesis by simp
qed

text \<open>
  Claim C3. When the signatures of the queries, sorted by name, render as \<open>qs\<close> and
  those of the mutations as \<open>ms\<close>, the schema renders as the sections below in this
  order, joined by one blank line: the scalars sorted by name, the object types sorted
  by name, the input types sorted by name, one \<open>Query\<close> block listing \<open>qs\<close> and one
  \<open>Mutation\<close> block listing \<open>ms\<close>. A section is there exactly when its map is not
  empty, and within the first three sections the entries are joined by one blank line.
\<close>

theorem schema_rendering:
  assumes "traverse GraphQLFunction_render (sort_key function_name (dict_values (queries s))) = Inr qs"
    and "traverse GraphQLFunction_render (sort_key function_name (dict_values (mutations s))) = Inr ms"
  shows "GraphQLSchema_render s = Inr (join ''\<newline>\<newline>''
     ((if scalars s = [] then []
       else [join ''\<newline>\<newline>'' (map (\<lambda>sc. ''scalar '' @ scalar_name sc)
                                     (sort_key scalar_name (dict_values (scalars s))))])
    @ (if types s = [] then []
       else [join ''\<newline>\<newline>'' (map GraphQLType_render (sort_key type_name (dict_values (types s))))])
    @ (if inputs s = [] then []
       else [join ''\<newline>\<newline>'' (map GraphQLType_render (sort_key type_name (dict_values (inputs s))))])
    @ (if queries s = [] then []
       else [''type Query {\<newline>    '' @ join (''\<newline>'' @ [CHR 0x09]) qs @ ''\<newline>}''])
    @ (if mutations s = [] then []
       else [''type Mutation {\<newline>    '' @ join (''\<newline>'' @ [CHR 0x09]) ms @ ''\<newline>}''])))"
proof -
  let ?sc = "sort_and_write (map Inr (dict_values (scalars s)))"
  let ?ty = "sort_and_write (map Inl (dict_values (types s)))"
  let ?inp = "sort_and_write (map Inl (dict_values (inputs s)))"
  let ?q = "if queries s = [] then []
            else ''type Query {\<newline>    '' @ join (''\<newline>'' @ [CHR 0x09]) qs @ ''\<newline>}''"
  let ?m = "if mutations s = [] then []
            else ''type Mutation {\<newline>    '' @ join (''\<newline>'' @ [CHR 0x09]) ms @ ''\<newline>}''"
  have q: "sort_and_write_functions (dict_values (queries s)) False = Inr ?q"
  proof (cases "queries s = []")
    case True
    then show ?thesis by (simp add: dict_values_def sort_and_write_functions_Nil)
  next
    case False
    then have "dict_values (queries s) \<noteq> []" by (simp add: dict_values_def)
    from sort_and_write_functions_eq [OF this assms(1), of False] False show ?thesis by simp
  qed
  have m: "sort_and_write_functions (dict_values (mutations s)) True = Inr ?m"
  proof (cases "mutations s = []")
    case True
    then show ?thesis by (simp add: dict_values_def sort_and_write_functions_Nil)
  next
    case False
    then have "dict_values (mutations s) \<noteq> []" by (simp add: dict_values_def)
    from sort_and_write_functions_eq [OF this assms(2), of True] False show ?thesis by simp
  qed
  have render: "GraphQLSchema_render s = Inr (join separator (filter (\<lambda>x. length x \<noteq> 0) [?sc, ?ty, ?inp, ?q, ?m]))"
    unfolding GraphQLSchema_render_def Let_def q m by simp
  have sc: "?sc = [] \<longleftrightarrow> scalars s = []"
    by (simp add: sort_and_write_eq_Nil dict_values_def)
  have ty: "?ty = [] \<longleftrightarrow> types s = []"
    by (simp add: sort_and_write_eq_Nil dict_values_def)
  have inp: "?inp = [] \<longleftrightarrow> inputs s = []"
    by (simp add: sort_and_write_eq_Nil dict_values_def)
  have sections: "filter (\<lambda>x. length x \<noteq> 0) [?sc, ?ty, ?inp, ?q, ?m] =
      (if scalars s = [] then [] else [?sc]) @ (if types s = [] then [] else [?ty])
      @ (if inputs s = [] then [] else [?inp])
      @ (if queries s = [] then []
         else [''type Query {\<newline>    '' @ join (''\<newline>'' @ [CHR 0x09]) qs @ ''\<newline>}''])
      @ (if mutations s = [] then []
         else [''type Mutation {\<newline>    '' @ join (''\<newline>'' @ [CHR 0x09]) ms @ ''\<newline>}''])"
    using sc ty inp by simp
  show ?thesis
    unfolding render sections
    unfolding sort_and_write_scalars sort_and_write_types separator_def ..
qed

theorem schema_rendering_witness:
  "traverse GraphQLFunction_render (sort_key function_name (dict_values (queries example_schema)))
     = Inr [''count: Int!'', ''get(m: MInput!): M!'']
 \<and> traverse GraphQLFunction_render (sort_key function_name (dict_values (mutations example_schema)))
     = Inr [''put(m: MInput!, day: Date): M'']
 \<and> GraphQLSchema_render example_schema =
      Inr (''scalar Date\<newline>\<newline>type M {\<newline>    t_int: Int!\<newline>    t_opt_str: String\<newline>}\<newline>\<newline>input MInput {\<newline>    t_int: Int!\<newline>    t_opt_str: String\<newline>}\<newline>\<newline>type Query {\<newline>    count: Int!\<newline>''
           @ [CHR 0x09] @ ''get(m: MInput!): M!\<newline>}\<newline>\<newline>type Mutation {\<newline>    put(m: MInput!, day: Date): M\<newline>}'')
 \<and> GraphQLSchema_render (example_schema\<lparr>types := [], queries := []\<rparr>) =
      Inr ''scalar Date\<newline>\<newline>input MInput {\<newline>    t_int: Int!\<newline>    t_opt_str: String\<newline>}\<newline>\<newline>type Mutation {\<newline>    put(m: MInput!, day: Date): M\<newline>}''"
proof -
  have q: "traverse GraphQLFunction_render (sort_key function_name (dict_values (queries example_schema)))
     = Inr [''count: Int!'', ''get(m: MInput!): M!'']"
    by (simp add: example_queries_rendered)
  have m: "traverse GraphQLFunction_render (sort_key function_name (dict_values (mutations example_schema)))
     = Inr [''put(m: MInput!, day: Date): M'']"
    by (simp add: example_mutations_rendered)
  have q': "traverse GraphQLFunction_render
       (sort_key function_name (dict_values (queries (example_schema\<lparr>types := [], queries := []\<rparr>)))) = Inr []"
    by (simp add: dict_values_def)
  have m': "traverse GraphQLFunction_render
       (sort_key function_name (dict_values (mutations (example_schema\<lparr>types := [], queries := []\<rparr>))))
     = Inr [''put(m: MInput!, day: Date): M'']"
    using m by simp
  have full: "GraphQLSchema_render example_schema =
      Inr (''scalar Date\<newline>\<newline>type M {\<newline>    t_int: Int!\<newline>    t_opt_str: String\<newline>}\<newline>\<newline>input MInput {\<newline>    t_int: Int!\<newline>    t_opt_str: String\<newline>}\<newline>\<newline>type Query {\<newline>    count: Int!\<newline>''
           @ [CHR 0x09] @ ''get(m: MInput!): M!\<newline>}\<newline>\<newline>type Mutation {\<newline>    put(m: MInput!, day: Date): M\<newline>}'')"
    unfolding schema_rendering [OF q m]
    by (simp add: example_schema_def dict_values_def example_Date_def example_M_def
        example_MInput_def GraphQLType_render_eq del: GraphQLType_render.simps)
  have part: "GraphQLSchema_render (example_schema\<lparr>types := [], queries := []\<rparr>) =
      Inr ''scalar Date\<newline>\<newline>input MInput {\<newline>    t_int: Int!\<newline>    t_opt_str: String\<newline>}\<newline>\<newline>type Mutation {\<newline>    put(m: MInput!, day: Date): M\<newline>}''"
    unfolding schema_rendering [OF q' m']
    by (simp add: example_schema_def dict_values_def example_Date_def
        example_MInput_def GraphQLType_render_eq del: GraphQLType_render.simps)
  from q m full part show ?thesis by simp
qed

section \<open>The call-time wrapper\<close>

text \<open>
  Claim C5. Let the python names of the parameters be distinct, and let
  \<open>resolved_kwargs\<close> hold, for each parameter in order, its python name with this value:
  the raw value found in \<open>kwargs\<close> under the parameter's schema name is \<open>None\<close> and so
  is the value, whatever the resolver; or the raw value is not \<open>None\<close> and the value
  is the raw value when the parameter has no resolver and what the resolver returns for
  it otherwise. Then the wrapper returns what the callable returns for
  \<open>resolved_kwargs\<close>.
\<close>

theorem wrapper_resolves_and_rebinds:
  assumes "distinct (map python_name (parameters f))"
    and "list_all2 (\<lambda>p kw. fst kw = python_name p \<and> fst kw \<noteq> [] \<and>
              (\<exists>n v. name p = Some n \<and> n \<noteq> [] \<and> map_of kwargs n = Some v \<and>
                 (if v = PyNone then snd kw = PyNone
                  else case resolver p of None \<Rightarrow> snd kw = v | Some r \<Rightarrow> r v = Inr (snd kw))))
           (parameters f) resolved_kwargs"
  shows "decorator f func args kwargs = func resolved_kwargs"
  using resolve_parameters_success [OF assms(2) assms(1), of "[]"]
  by (simp add: decorator_def)

theorem wrapper_resolves_and_rebinds_witness:
  "distinct (map python_name (parameters example_put))
 \<and> example_decoder PyNone = Inl (Raised ''TypeError'')
 \<and> decorator example_put (\<lambda>kw. Inr (PyDict kw)) []
       [(''day'', PyStr ''2022-07-01''), (''m'', PyDict [(''t_int'', PyInt 1)])] =
     Inr (PyDict [(''model'', PyDict [(''t_int'', PyInt 1)]),
                  (''on_day'', PyList [PyStr ''date'', PyStr ''2022-07-01''])])
 \<and> decorator example_put (\<lambda>kw. Inr (PyDict kw)) []
       [(''day'', PyNone), (''m'', PyDict [(''t_int'', PyInt 1)])] =
     Inr (PyDict [(''model'', PyDict [(''t_int'', PyInt 1)]), (''on_day'', PyNone)])"
proof -
  have d: "distinct (map python_name (parameters example_put))"
    by (simp add: example_put_def)
  have "decorator example_put (\<lambda>kw. Inr (PyDict kw)) []
       [(''day'', PyStr ''2022-07-01''), (''m'', PyDict [(''t_int'', PyInt 1)])] =
     Inr (PyDict [(''model'', PyDict [(''t_int'', PyInt 1)]),
                  (''on_day'', PyList [PyStr ''date'', PyStr ''2022-07-01''])])"
    by (rule wrapper_resolves_and_rebinds [OF d]) (simp add: example_put_def example_decoder_def)
  moreover have "decorator example_put (\<lambda>kw. Inr (PyDict kw)) []
       [(''day'', PyNone), (''m'', PyDict [(''t_int'', PyInt 1)])] =
     Inr (PyDict [(''model'', PyDict [(''t_int'', PyInt 1)]), (''on_day'', PyNone)])"
    by (rule wrapper_resolves_and_rebinds [OF d]) (simp add: example_put_def)
  moreover have "example_decoder PyNone = Inl (Raised ''TypeError'')"
    by (simp add: example_decoder_def)
  ultimately show ?thesis using d by simp
qed




section \<open>Type introspection\<close>

text \<open>
  Claim C1. Let \<open>T\<close> be a declaration that is not itself an optional wrapper and that
  the engine resolves, in any mode and from any registry. Then \<open>List[T]\<close> resolves to a
  list type whose inner reference is not nullable, and the result is not nullable;
  \<open>List[Optional[T]]\<close> resolves to a list type whose inner reference is nullable; and
  \<open>Optional[List[T]]\<close> resolves to a nullable result whose inner reference is not
  nullable. The inner reference is the one \<open>ref\<close> makes of the result of \<open>T\<close>, and the
  registry is left as resolving \<open>T\<close> leaves it.
\<close>

theorem list_nullability:
  assumes "create_graphql_type input_factory s T ex nm = Inr ((t, n), s')"
    and "\<forall>U. T \<noteq> OptionalOf U"
  shows "\<exists>r. ref t False = Inr (Reference r False)
     \<and> create_graphql_type input_factory s (ListOf T) ex nm =
         Inr ((Array (Reference r False), False), s')
     \<and> create_graphql_type input_factory s (ListOf (OptionalOf T)) ex nm =
         Inr ((Array (Reference r True), False), s')
     \<and> create_graphql_type input_factory s (OptionalOf (ListOf T)) ex nm =
         Inr ((Array (Reference r False), True), s')"
proof -
  from create_graphql_type_plain [OF assms] have n: "n = False" by simp
  from create_graphql_type_not_reference [OF assms(1)] have "\<forall>r m. t \<noteq> Reference r m" by blast
  from ref_name [OF this] obtain r where r: "\<And>nl. ref t nl = Inr (Reference r nl)" by blast
  from assms(1) r n show ?thesis by simp
qed

theorem list_nullability_witness:
  "create_graphql_type False example_schema (Primitive BoolT) [] (Some []) =
      Inr ((Scalar (GraphQLScalar ''Boolean'' True), False), example_schema)
 \<and> create_graphql_type False example_schema (ListOf (Primitive BoolT)) [] (Some []) =
      Inr ((Array (Reference ''Boolean'' False), False), example_schema)
 \<and> create_graphql_type False example_schema (ListOf (OptionalOf (Primitive BoolT))) [] (Some []) =
      Inr ((Array (Reference ''Boolean'' True), False), example_schema)
 \<and> create_graphql_type False example_schema (OptionalOf (ListOf (Primitive BoolT))) [] (Some []) =
      Inr ((Array (Reference ''Boolean'' False), True), example_schema)"
proof -
  have h: "create_graphql_type False example_schema (Primitive BoolT) [] (Some []) =
      Inr ((Scalar (GraphQLScalar ''Boolean'' True), False), example_schema)"
    by simp
  have p: "\<forall>U. Primitive BoolT \<noteq> OptionalOf U" by simp
  from h list_nullability [OF h p] show ?thesis by simp
qed

end
